theory Spec2Isabelle
  imports Complex_Main
begin

section \<open>The assertion library \<open>assert.py\<close>: data model\<close>

text \<open>
  The module \<open>src/assert/assert.py\<close> is embedded function by function. Python values
  are a datatype, exceptions are values of the type \<open>exc\<close>, and a function that can
  raise returns \<open>exc + 'a\<close> with \<open>Inl\<close> for the raised exception.

  The class \<open>Assert\<close> that closes the module (lines 336-354) only renames the functions;
  its line 338 assigns to the reserved word \<open>assert\<close>, which the Python parser refuses.
  The functions are embedded as they are written.

  Floats: only the distinctions the code makes are kept. A float is NaN, an infinity,
  negative zero, or a rational value (\<open>FVal 0\<close> is positive zero). No float arithmetic
  with rounding occurs in the modelled code.
\<close>

datatype pyfloat = FNaN | FPosInf | FNegInf | FNegZero | FVal rat

text \<open>
  Hashable keys of dictionaries and elements of sets: strings and integers, whose
  native equality is structural.
\<close>

datatype pykey = KStr string | KInt int

text \<open>
  Values. Objects whose identity is observable by \<open>is\<close> carry an object identity (the
  first \<open>nat\<close>): floats, lists, tuples, dicts, sets and instances of user classes. Two
  terms with different identities are different objects, also when their contents agree.
  None, bools, ints, strings and bytes are immutable and carry no identity: for them the
  outcome of every modelled function is the same whether or not the interpreter shares
  equal objects (the integer zero is a cached singleton in CPython).
  A dict is an association list in insertion order. An instance of a user class
  \<open>PObj i c d\<close> has the class name \<open>c\<close> and the dict object \<open>d\<close> as its \<open>__dict__\<close>.
  The value datatype is finite and tree-shaped: it holds the acyclic values only.
\<close>

datatype pyval =
    PNone
  | PBool bool
  | PInt int
  | PFloat nat pyfloat
  | PStr string
  | PBytes "nat list"
  | PList nat "pyval list"
  | PTuple nat "pyval list"
  | PDict nat "(pykey \<times> pyval) list"
  | PSet nat "pykey list"
  | PObj nat string pyval

datatype pytype =
    TNoneType | TBool | TInt | TFloat | TStr | TBytes | TList | TTuple | TDict | TSet
  | TClass string

text \<open>
  Exception classes: the root \<open>BaseException\<close>, the built-in classes that derive from it
  directly and not from \<open>Exception\<close> (\<open>KeyboardInterrupt\<close>, \<open>SystemExit\<close>,
  \<open>GeneratorExit\<close>), \<open>Exception\<close> and the built-in classes below it that the module
  meets, the module's own class \<open>AssertError\<close> (line 8, a subclass of \<open>Exception\<close>) and
  user subclasses of any of them (with the constructor they inherit).
\<close>

datatype exc_class =
    BaseException | KeyboardInterrupt | SystemExit | GeneratorExit
  | Exception | ArithmeticError | ZeroDivisionError | AssertionError | TypeError
  | ValueError | LookupError | KeyError | AssertError | Subclass string exc_class

text \<open>
  An exception instance: its class, the string \<open>str(err)\<close> gives, and the attributes
  \<open>hasattr\<close> and \<open>getattr\<close> find on it.
\<close>

datatype exc = Exc (exc_cls: exc_class) (exc_str: string) (exc_attrs: "(string \<times> pyval) list")

text \<open>
  Arguments in the \<open>message\<close> and \<open>expected\<close> positions are dynamically typed: a data
  value, an exception instance, an exception class, a callable taking the error (with
  its \<open>__name__\<close>), or a compiled regular expression, given by what its \<open>search\<close>
  answers on a string.
\<close>

datatype dyn =
    DVal pyval
  | DExc exc
  | DType exc_class
  | DFunc string "exc \<Rightarrow> exc + pyval"
  | DPattern "string \<Rightarrow> bool"

section \<open>Built-in operations of the interpreter\<close>

fun py_type :: "pyval \<Rightarrow> pytype" where
  "py_type PNone = TNoneType"
| "py_type (PBool _) = TBool"
| "py_type (PInt _) = TInt"
| "py_type (PFloat _ _) = TFloat"
| "py_type (PStr _) = TStr"
| "py_type (PBytes _) = TBytes"
| "py_type (PList _ _) = TList"
| "py_type (PTuple _ _) = TTuple"
| "py_type (PDict _ _) = TDict"
| "py_type (PSet _ _) = TSet"
| "py_type (PObj _ c _) = TClass c"

text \<open>\<open>a is b\<close>: the same object, so the same term, identity included.\<close>

definition py_is :: "pyval \<Rightarrow> pyval \<Rightarrow> bool" where
  "py_is a b = (a = b)"

fun seq_items :: "pyval \<Rightarrow> pyval list" where
  "seq_items (PList _ xs) = xs"
| "seq_items (PTuple _ xs) = xs"
| "seq_items _ = []"

fun dict_items :: "pyval \<Rightarrow> (pykey \<times> pyval) list" where
  "dict_items (PDict _ kvs) = kvs"
| "dict_items _ = []"

fun set_items :: "pyval \<Rightarrow> pykey list" where
  "set_items (PSet _ ks) = ks"
| "set_items _ = []"

fun obj_dict :: "pyval \<Rightarrow> pyval" where
  "obj_dict (PObj _ _ d) = d"
| "obj_dict _ = PNone"

text \<open>\<open>len\<close> of a container; a dict and a set count their distinct keys.\<close>

fun py_len :: "pyval \<Rightarrow> nat" where
  "py_len (PStr s) = length s"
| "py_len (PBytes bs) = length bs"
| "py_len (PList _ xs) = length xs"
| "py_len (PTuple _ xs) = length xs"
| "py_len (PDict _ kvs) = card (set (map fst kvs))"
| "py_len (PSet _ ks) = card (set ks)"
| "py_len _ = 0"

definition fzero :: "pyfloat \<Rightarrow> bool" where
  "fzero f = (f = FNegZero \<or> f = FVal 0)"

text \<open>Float \<open>==\<close>: NaN equals nothing, the two zeros are equal.\<close>

fun float_eq :: "pyfloat \<Rightarrow> pyfloat \<Rightarrow> bool" where
  "float_eq FNaN _ = False"
| "float_eq _ FNaN = False"
| "float_eq FNegZero y = fzero y"
| "float_eq x FNegZero = fzero x"
| "float_eq x y = (x = y)"

text \<open>The numeric value of a bool, an int or a float; Python compares them exactly.\<close>

fun num_of :: "pyval \<Rightarrow> pyfloat option" where
  "num_of (PBool b) = Some (FVal (if b then 1 else 0))"
| "num_of (PInt n) = Some (FVal (of_int n))"
| "num_of (PFloat _ f) = Some f"
| "num_of _ = None"

definition num_eq :: "pyval \<Rightarrow> pyval \<Rightarrow> bool" where
  "num_eq a b =
     (case num_of a of None \<Rightarrow> False
      | Some x \<Rightarrow> (case num_of b of None \<Rightarrow> False | Some y \<Rightarrow> float_eq x y))"

text \<open>
  Native equality \<open>a == b\<close>. Containers compare their elements with the identity
  shortcut of the interpreter (\<open>x is y or x == y\<close>); a dict compares the number of keys
  and then looks every key of \<open>a\<close> up in \<open>b\<close>; an instance of a user class has the default
  equality, identity.
\<close>

fun py_eq :: "pyval \<Rightarrow> pyval \<Rightarrow> bool"
  and py_eq_seq :: "pyval list \<Rightarrow> pyval list \<Rightarrow> bool"
  and py_eq_items :: "(pykey \<times> pyval) list \<Rightarrow> (pykey \<times> pyval) list \<Rightarrow> bool"
where
  "py_eq a b =
     (case a of
        PNone \<Rightarrow> b = PNone
      | PBool _ \<Rightarrow> num_eq a b
      | PInt _ \<Rightarrow> num_eq a b
      | PFloat _ _ \<Rightarrow> num_eq a b
      | PStr _ \<Rightarrow> b = a
      | PBytes _ \<Rightarrow> b = a
      | PList _ xs \<Rightarrow> py_type b = TList \<and> py_eq_seq xs (seq_items b)
      | PTuple _ xs \<Rightarrow> py_type b = TTuple \<and> py_eq_seq xs (seq_items b)
      | PDict _ kvs \<Rightarrow>
          py_type b = TDict \<and> py_len a = py_len b \<and> py_eq_items kvs (dict_items b)
      | PSet _ ks \<Rightarrow> py_type b = TSet \<and> set ks = set (set_items b)
      | PObj _ _ _ \<Rightarrow> py_is a b)"
| "py_eq_seq [] ys = (ys = [])"
| "py_eq_seq (x # xs) [] = False"
| "py_eq_seq (x # xs) (y # ys) = ((py_is x y \<or> py_eq x y) \<and> py_eq_seq xs ys)"
| "py_eq_items [] bs = True"
| "py_eq_items ((k, v) # kvs) bs =
     (case map_of bs k of
        None \<Rightarrow> False
      | Some w \<Rightarrow> (py_is v w \<or> py_eq v w) \<and> py_eq_items kvs bs)"

text \<open>Truthiness, as \<open>not value\<close>, \<open>x or y\<close> and \<open>x and y\<close> read it.\<close>

fun truthy :: "pyval \<Rightarrow> bool" where
  "truthy PNone = False"
| "truthy (PBool b) = b"
| "truthy (PInt n) = (n \<noteq> 0)"
| "truthy (PFloat _ f) = (\<not> fzero f)"
| "truthy (PStr s) = (s \<noteq> [])"
| "truthy (PBytes bs) = (bs \<noteq> [])"
| "truthy (PList _ xs) = (xs \<noteq> [])"
| "truthy (PTuple _ xs) = (xs \<noteq> [])"
| "truthy (PDict _ kvs) = (kvs \<noteq> [])"
| "truthy (PSet _ ks) = (ks \<noteq> [])"
| "truthy (PObj _ _ _) = True"

fun dyn_truthy :: "dyn \<Rightarrow> bool" where
  "dyn_truthy (DVal v) = truthy v"
| "dyn_truthy _ = True"

fun is_none :: "dyn \<Rightarrow> bool" where
  "is_none (DVal PNone) = True"
| "is_none _ = False"

text \<open>
  True division \<open>1 / a\<close>. Python raises ZeroDivisionError on a zero divisor, for ints,
  bools and floats alike; there is no infinity result as in JavaScript.
\<close>

definition zero_division :: "string \<Rightarrow> exc" where
  "zero_division msg = Exc ZeroDivisionError msg []"

fun one_over :: "pyval \<Rightarrow> exc + pyfloat" where
  "one_over (PBool b) =
     (if b then Inr (FVal 1) else Inl (zero_division ''division by zero''))"
| "one_over (PInt n) =
     (if n = 0 then Inl (zero_division ''division by zero'') else Inr (FVal (1 / of_int n)))"
| "one_over (PFloat _ FNaN) = Inr FNaN"
| "one_over (PFloat _ FPosInf) = Inr (FVal 0)"
| "one_over (PFloat _ FNegInf) = Inr FNegZero"
| "one_over (PFloat _ FNegZero) = Inl (zero_division ''float division by zero'')"
| "one_over (PFloat _ (FVal q)) =
     (if q = 0 then Inl (zero_division ''float division by zero'') else Inr (FVal (1 / q)))"
| "one_over _ = Inl (Exc TypeError ''unsupported operand type(s) for /'' [])"

text \<open>\<open>x > 0\<close> on a float.\<close>

fun float_pos :: "pyfloat \<Rightarrow> bool" where
  "float_pos FPosInf = True"
| "float_pos (FVal q) = (0 < q)"
| "float_pos _ = False"

fun is_nan_float :: "pyval \<Rightarrow> bool" where
  "is_nan_float (PFloat _ FNaN) = True"
| "is_nan_float _ = False"

text \<open>The method resolution order of an exception class, and \<open>isinstance\<close>.\<close>

fun mro :: "exc_class \<Rightarrow> exc_class list" where
  "mro BaseException = [BaseException]"
| "mro KeyboardInterrupt = [KeyboardInterrupt, BaseException]"
| "mro SystemExit = [SystemExit, BaseException]"
| "mro GeneratorExit = [GeneratorExit, BaseException]"
| "mro Exception = [Exception, BaseException]"
| "mro ArithmeticError = [ArithmeticError, Exception, BaseException]"
| "mro ZeroDivisionError = [ZeroDivisionError, ArithmeticError, Exception, BaseException]"
| "mro AssertionError = [AssertionError, Exception, BaseException]"
| "mro TypeError = [TypeError, Exception, BaseException]"
| "mro ValueError = [ValueError, Exception, BaseException]"
| "mro LookupError = [LookupError, Exception, BaseException]"
| "mro KeyError = [KeyError, LookupError, Exception, BaseException]"
| "mro AssertError = [AssertError, Exception, BaseException]"
| "mro (Subclass n c) = Subclass n c # mro c"

definition issubclass :: "exc_class \<Rightarrow> exc_class \<Rightarrow> bool" where
  "issubclass c d = (d \<in> set (mro c))"

definition isinstance :: "exc \<Rightarrow> exc_class \<Rightarrow> bool" where
  "isinstance err c = issubclass (exc_cls err) c"

section \<open>Helper functions of the module\<close>

text \<open>
  \<open>object_is\<close> (lines 218-231). The signed-zero test is
  \<open>a == 0 and b == 0 and (1/a > 0) != (1/b > 0)\<close>, evaluated from left to right.
\<close>

definition signed_zero_differs :: "pyval \<Rightarrow> pyval \<Rightarrow> exc + bool" where
  "signed_zero_differs a b =
     (if \<not> py_eq a (PInt 0) then Inr False
      else if \<not> py_eq b (PInt 0) then Inr False
      else (case one_over a of
              Inl e \<Rightarrow> Inl e
            | Inr x \<Rightarrow> (case one_over b of
                          Inl e \<Rightarrow> Inl e
                        | Inr y \<Rightarrow> Inr (float_pos x \<noteq> float_pos y))))"

definition object_is :: "pyval \<Rightarrow> pyval \<Rightarrow> exc + bool" where
  "object_is a b =
     (if py_is a b then Inr True
      else if py_type a = TFloat \<and> py_type b = TFloat \<and> is_nan_float a \<and> is_nan_float b
        then Inr True
      else (case signed_zero_differs a b of
              Inl e \<Rightarrow> Inl e
            | Inr True \<Rightarrow> Inr False
            | Inr False \<Rightarrow> Inr (py_eq a b)))"

text \<open>
  \<open>is_deep_equal\<close> (lines 251-282). \<open>all(... for x, y in zip(a, b))\<close> and
  \<open>all(... for k in a)\<close> stop at the first False and let an exception through;
  \<open>b[k]\<close> raises KeyError on a missing key.
\<close>

fun is_deep_equal :: "pyval \<Rightarrow> pyval \<Rightarrow> exc + bool"
  and all_deep_equal :: "pyval list \<Rightarrow> pyval list \<Rightarrow> exc + bool"
  and all_deep_equal_items :: "(pykey \<times> pyval) list \<Rightarrow> (pykey \<times> pyval) list \<Rightarrow> exc + bool"
where
  "is_deep_equal a b =
     (case object_is a b of
        Inl e \<Rightarrow> Inl e
      | Inr True \<Rightarrow> Inr True
      | Inr False \<Rightarrow>
          if py_type a \<noteq> py_type b then Inr False
          else (case a of
                  PList _ xs \<Rightarrow>
                    if length xs \<noteq> py_len b then Inr False
                    else all_deep_equal xs (seq_items b)
                | PTuple _ xs \<Rightarrow>
                    if length xs \<noteq> py_len b then Inr False
                    else all_deep_equal xs (seq_items b)
                | PDict _ kvs \<Rightarrow>
                    if set (map fst kvs) \<noteq> set (map fst (dict_items b)) then Inr False
                    else all_deep_equal_items kvs (dict_items b)
                | PSet _ _ \<Rightarrow> Inr (py_eq a b)
                | PBytes _ \<Rightarrow> Inr (py_eq a b)
                | PObj _ _ d \<Rightarrow> is_deep_equal d (obj_dict b)
                | _ \<Rightarrow> Inr (py_eq a b)))"
| "all_deep_equal [] ys = Inr True"
| "all_deep_equal (x # xs) [] = Inr True"
| "all_deep_equal (x # xs) (y # ys) =
     (case is_deep_equal x y of
        Inl e \<Rightarrow> Inl e
      | Inr False \<Rightarrow> Inr False
      | Inr True \<Rightarrow> all_deep_equal xs ys)"
| "all_deep_equal_items [] bs = Inr True"
| "all_deep_equal_items ((k, v) # kvs) bs =
     (case map_of bs k of
        None \<Rightarrow> Inl (Exc KeyError ''key'' [])
      | Some w \<Rightarrow>
          (case is_deep_equal v w of
             Inl e \<Rightarrow> Inl e
           | Inr False \<Rightarrow> Inr False
           | Inr True \<Rightarrow> all_deep_equal_items kvs bs))"

text \<open>
  \<open>stringify\<close> (lines 233-249). \<open>py_repr\<close> stands for the interpreter's \<open>repr\<close> (which is
  also \<open>str\<close> on ints and floats); strings count characters.
\<close>

fun class_name :: "exc_class \<Rightarrow> string" where
  "class_name BaseException = ''BaseException''"
| "class_name KeyboardInterrupt = ''KeyboardInterrupt''"
| "class_name SystemExit = ''SystemExit''"
| "class_name GeneratorExit = ''GeneratorExit''"
| "class_name Exception = ''Exception''"
| "class_name ArithmeticError = ''ArithmeticError''"
| "class_name ZeroDivisionError = ''ZeroDivisionError''"
| "class_name AssertionError = ''AssertionError''"
| "class_name TypeError = ''TypeError''"
| "class_name ValueError = ''ValueError''"
| "class_name LookupError = ''LookupError''"
| "class_name KeyError = ''KeyError''"
| "class_name AssertError = ''AssertError''"
| "class_name (Subclass n _) = n"

definition clip80 :: "string \<Rightarrow> string" where
  "clip80 r = take 80 r @ (if length r > 80 then ''...'' else [])"

definition sized :: "(dyn \<Rightarrow> string) \<Rightarrow> string \<Rightarrow> pyval \<Rightarrow> string" where
  "sized py_repr tname v = tname @ ''('' @ py_repr (DVal (PInt (int (py_len v)))) @ '')''"

fun stringify :: "(dyn \<Rightarrow> string) \<Rightarrow> dyn \<Rightarrow> string" where
  "stringify py_repr (DVal PNone) = ''null''"
| "stringify py_repr (DVal (PBool b)) = (if b then ''True'' else ''False'')"
| "stringify py_repr (DVal (PInt n)) = py_repr (DVal (PInt n))"
| "stringify py_repr (DVal (PFloat i f)) = py_repr (DVal (PFloat i f))"
| "stringify py_repr (DVal (PStr s)) =
     py_repr (DVal (PStr (if length s > 80 then take 80 s @ ''...'' else s)))"
| "stringify py_repr (DVal (PBytes bs)) = sized py_repr ''bytes'' (PBytes bs)"
| "stringify py_repr (DVal (PList i xs)) = sized py_repr ''list'' (PList i xs)"
| "stringify py_repr (DVal (PTuple i xs)) = sized py_repr ''tuple'' (PTuple i xs)"
| "stringify py_repr (DVal (PSet i ks)) = sized py_repr ''set'' (PSet i ks)"
| "stringify py_repr (DVal (PDict i kvs)) = sized py_repr ''dict'' (PDict i kvs)"
| "stringify py_repr (DType c) = ''function '' @ class_name c"
| "stringify py_repr (DFunc n f) = ''function '' @ n"
| "stringify py_repr v = clip80 (py_repr v)"

text \<open>
  \<open>test_error\<close> (lines 284-313). A class that derives from \<open>Exception\<close> takes the first
  branch (line 292). A class that does not is no pattern and is callable: the call
  \<open>expected(err)\<close> builds an instance, which is truthy. The \<open>try\<close> around the predicate
  (lines 301-304) catches \<open>Exception\<close> only: another exception of the predicate passes
  through. \<open>hasattr(err, key)\<close> raises TypeError on a key that is not a string.
\<close>

fun match_props :: "exc \<Rightarrow> (pykey \<times> pyval) list \<Rightarrow> exc + bool" where
  "match_props err [] = Inr True"
| "match_props err ((KInt n, v) # kvs) =
     Inl (Exc TypeError
           (''attribute name must be string, not '' @ [CHR 0x27] @ ''int'' @ [CHR 0x27]) [])"
| "match_props err ((KStr s, v) # kvs) =
     (case map_of (exc_attrs err) s of
        None \<Rightarrow> Inr False
      | Some x \<Rightarrow>
          (case is_deep_equal x v of
             Inl e \<Rightarrow> Inl e
           | Inr False \<Rightarrow> Inr False
           | Inr True \<Rightarrow> match_props err kvs))"

fun test_error :: "exc \<Rightarrow> dyn \<Rightarrow> dyn \<Rightarrow> string \<Rightarrow> exc + bool" where
  "test_error err (DType c) message fn =
     (if issubclass c Exception then Inr (isinstance err c) else Inr True)"
| "test_error err (DPattern search) message fn = Inr (search (exc_str err))"
| "test_error err (DFunc n f) message fn =
     (case f err of
        Inl e \<Rightarrow> if isinstance e Exception then Inr False else Inl e
      | Inr r \<Rightarrow> Inr (truthy r))"
| "test_error err (DVal (PDict i kvs)) message fn = match_props err kvs"
| "test_error err _ message fn = Inr False"

section \<open>The error class and the raise sites\<close>

text \<open>
  The keyword arguments the assertion functions pass at their raise sites;
  \<open>kw_generated_message\<close> is None where the call does not pass it.
\<close>

record kwargs =
  kw_message :: dyn
  kw_actual :: dyn
  kw_expected :: dyn
  kw_operator :: string
  kw_generated_message :: "bool option"
  kw_stack_start_fn :: string

text \<open>
  The module's class \<open>AssertError\<close> (lines 8-51): the attributes its constructor sets.
  The stack capture (lines 36-48) only adds a diagnostic attribute under \<open>try\<close> and is
  left out.
\<close>

record assert_error =
  ae_message :: dyn
  ae_generated_message :: bool
  ae_code :: string
  ae_actual :: dyn
  ae_expected :: dyn
  ae_operator :: string
  ae_name :: string

definition AssertError_init :: "(dyn \<Rightarrow> string) \<Rightarrow> kwargs \<Rightarrow> assert_error" where
  "AssertError_init py_repr kw =
     (let given = (case kw_generated_message kw of None \<Rightarrow> False | Some g \<Rightarrow> g);
          generated = (if is_none (kw_message kw) then True else given);
          msg = (if is_none (kw_message kw)
                 then (if kw_operator kw = ''fail'' then DVal (PStr ''Assertion failed.'')
                       else DVal (PStr (stringify py_repr (kw_actual kw) @ '' '' @ kw_operator kw
                                        @ '' '' @ stringify py_repr (kw_expected kw))))
                 else kw_message kw)
      in \<lparr> ae_message = msg, ae_generated_message = generated, ae_code = ''ERR_ASSERTION'',
           ae_actual = kw_actual kw, ae_expected = kw_expected kw,
           ae_operator = kw_operator kw, ae_name = ''AssertError'' \<rparr>)"

text \<open>
  The raise sites of the assertion functions (lines 62, 76, 89, 105, 130, 154, 167, 181,
  194) name \<open>AssertionError\<close>, which the module never defines or imports: the name is
  Python's built-in exception class, not the module's \<open>AssertError\<close>. The constructor of
  a built-in exception takes no keyword arguments, so evaluating the call expression
  raises TypeError before any AssertionError exists.
\<close>

definition keyword_type_error :: exc where
  "keyword_type_error = Exc TypeError ''AssertionError() takes no keyword arguments'' []"

definition builtin_AssertionError :: "kwargs \<Rightarrow> exc + exc" where
  "builtin_AssertionError kw = Inl keyword_type_error"

definition raise_AssertionError :: "kwargs \<Rightarrow> exc + unit" where
  "raise_AssertionError kw =
     (case builtin_AssertionError kw of Inl e \<Rightarrow> Inl e | Inr err \<Rightarrow> Inl err)"

section \<open>The assertion functions\<close>

text \<open>\<open>isinstance(message, Exception)\<close> and \<open>raise message\<close>.\<close>

fun as_exception :: "dyn \<Rightarrow> exc option" where
  "as_exception (DExc e) = (if isinstance e Exception then Some e else None)"
| "as_exception _ = None"

text \<open>\<open>assert_\<close> (lines 53-69).\<close>

definition assert_fn :: "pyval \<Rightarrow> dyn \<Rightarrow> exc + unit" where
  "assert_fn v message =
     (if \<not> truthy v then
        (if is_none message then
           raise_AssertionError
             \<lparr> kw_message = DVal (PStr (if v \<noteq> PNone then ''Assertion failed.''
                                        else ''No value argument passed to '' @ [CHR 0x60] @ ''assert()''
                                             @ [CHR 0x60] @ ''.'')),
               kw_actual = DVal v, kw_expected = DVal (PBool True), kw_operator = ''=='',
               kw_generated_message = Some True, kw_stack_start_fn = ''assert_'' \<rparr>
         else (case as_exception message of
                 Some e \<Rightarrow> Inl e
               | None \<Rightarrow>
                   raise_AssertionError
                     \<lparr> kw_message = message, kw_actual = DVal v,
                       kw_expected = DVal (PBool True), kw_operator = ''=='',
                       kw_generated_message = Some False,
                       kw_stack_start_fn = ''assert_'' \<rparr>))
      else Inr ())"

text \<open>
  \<open>equal\<close> (lines 71-82) and \<open>not_equal\<close> (lines 84-95). The four comparison
  assertions share their failing branch: a message that is an exception instance is
  raised as it is, otherwise the raise site is evaluated.
\<close>

definition comparison_failed ::
  "string \<Rightarrow> string \<Rightarrow> pyval \<Rightarrow> pyval \<Rightarrow> dyn \<Rightarrow> exc + unit" where
  "comparison_failed fn op actual expected message =
     (case as_exception message of
        Some e \<Rightarrow> Inl e
      | None \<Rightarrow>
          raise_AssertionError
            \<lparr> kw_message = message, kw_actual = DVal actual, kw_expected = DVal expected,
              kw_operator = op, kw_generated_message = None, kw_stack_start_fn = fn \<rparr>)"

definition equal_fn :: "pyval \<Rightarrow> pyval \<Rightarrow> dyn \<Rightarrow> exc + unit" where
  "equal_fn actual expected message =
     (case object_is actual expected of
        Inl e \<Rightarrow> Inl e
      | Inr True \<Rightarrow> Inr ()
      | Inr False \<Rightarrow> comparison_failed ''equal'' ''strictEqual'' actual expected message)"

definition not_equal :: "pyval \<Rightarrow> pyval \<Rightarrow> dyn \<Rightarrow> exc + unit" where
  "not_equal actual expected message =
     (case object_is actual expected of
        Inl e \<Rightarrow> Inl e
      | Inr True \<Rightarrow> comparison_failed ''not_equal'' ''notStrictEqual'' actual expected message
      | Inr False \<Rightarrow> Inr ())"

text \<open>\<open>fail\<close> (lines 97-112).\<close>

definition fail :: "dyn \<Rightarrow> exc + unit" where
  "fail message =
     (if is_none message then
        raise_AssertionError
          \<lparr> kw_message = DVal (PStr ''Assertion failed.''), kw_actual = DVal (PBool False),
            kw_expected = DVal (PBool True), kw_operator = ''fail'',
            kw_generated_message = Some True, kw_stack_start_fn = ''fail'' \<rparr>
      else (case as_exception message of
              Some e \<Rightarrow> Inl e
            | None \<Rightarrow>
                raise_AssertionError
                  \<lparr> kw_message = message, kw_actual = DVal (PBool False),
                    kw_expected = DVal (PBool True), kw_operator = ''fail'',
                    kw_generated_message = Some False, kw_stack_start_fn = ''fail'' \<rparr>))"

text \<open>
  \<open>throws\<close> (lines 114-140) and \<open>does_not_throw\<close> (lines 142-162). Both start with
  \<open>if isinstance(expected, (str, Pattern)): message, expected = expected, None\<close>.
  The callable takes no argument and returns a value or raises. \<open>except Exception\<close>
  (lines 125, 152) catches the instances of \<open>Exception\<close>; any other exception of the
  callable leaves the function as it is.
\<close>

fun is_str_or_pattern :: "dyn \<Rightarrow> bool" where
  "is_str_or_pattern (DVal (PStr _)) = True"
| "is_str_or_pattern (DPattern _) = True"
| "is_str_or_pattern _ = False"

definition swap_message :: "dyn \<Rightarrow> dyn \<Rightarrow> dyn \<times> dyn" where
  "swap_message expected message =
     (if is_str_or_pattern expected then (expected, DVal PNone) else (message, expected))"

definition throws :: "(unit \<Rightarrow> exc + pyval) \<Rightarrow> dyn \<Rightarrow> dyn \<Rightarrow> exc + unit" where
  "throws func expected0 message0 =
     (case swap_message expected0 message0 of
        (message, expected) \<Rightarrow>
          (case func () of
             Inr _ \<Rightarrow>
               raise_AssertionError
                 \<lparr> kw_message = (if dyn_truthy message then message
                                  else DVal (PStr ''Missing expected exception.'')),
                   kw_actual = DVal PNone, kw_expected = expected, kw_operator = ''throws'',
                   kw_generated_message = Some (is_none message),
                   kw_stack_start_fn = ''throws'' \<rparr>
           | Inl err \<Rightarrow>
               if \<not> isinstance err Exception then Inl err
               else if dyn_truthy expected then
                 (case test_error err expected message ''throws'' of
                    Inl e \<Rightarrow> Inl e
                  | Inr True \<Rightarrow> Inr ()
                  | Inr False \<Rightarrow> Inl err)
               else Inr ()))"

definition does_not_throw :: "(unit \<Rightarrow> exc + pyval) \<Rightarrow> dyn \<Rightarrow> dyn \<Rightarrow> exc + unit" where
  "does_not_throw func expected0 message0 =
     (case swap_message expected0 message0 of
        (message, expected) \<Rightarrow>
          (case func () of
             Inr _ \<Rightarrow> Inr ()
           | Inl err \<Rightarrow>
               if \<not> isinstance err Exception then Inl err
               else
               (case test_error err expected message ''does_not_throw'' of
                  Inl e \<Rightarrow> Inl e
                | Inr True \<Rightarrow>
                    raise_AssertionError
                      \<lparr> kw_message = (if dyn_truthy message then message
                                       else DVal (PStr ''Got unwanted exception.'')),
                        kw_actual = DExc err, kw_expected = expected,
                        kw_operator = ''doesNotThrow'',
                        kw_generated_message = Some (is_none message),
                        kw_stack_start_fn = ''does_not_throw'' \<rparr>
                | Inr False \<Rightarrow> Inl err)))"

text \<open>\<open>if_error\<close> (lines 164-174).\<close>

definition if_error :: "(dyn \<Rightarrow> string) \<Rightarrow> dyn \<Rightarrow> exc + unit" where
  "if_error py_repr err =
     (if \<not> is_none err then
        raise_AssertionError
          \<lparr> kw_message = DVal (PStr (''ifError got unwanted exception: '' @ stringify py_repr err)),
            kw_actual = err, kw_expected = DVal PNone, kw_operator = ''ifError'',
            kw_generated_message = Some True, kw_stack_start_fn = ''if_error'' \<rparr>
      else Inr ())"

text \<open>\<open>deep_equal\<close> (lines 176-187) and \<open>not_deep_equal\<close> (lines 189-200).\<close>

definition deep_equal :: "pyval \<Rightarrow> pyval \<Rightarrow> dyn \<Rightarrow> exc + unit" where
  "deep_equal actual expected message =
     (case is_deep_equal actual expected of
        Inl e \<Rightarrow> Inl e
      | Inr True \<Rightarrow> Inr ()
      | Inr False \<Rightarrow> comparison_failed ''deep_equal'' ''deepStrictEqual'' actual expected message)"

definition not_deep_equal :: "pyval \<Rightarrow> pyval \<Rightarrow> dyn \<Rightarrow> exc + unit" where
  "not_deep_equal actual expected message =
     (case is_deep_equal actual expected of
        Inl e \<Rightarrow> Inl e
      | Inr True \<Rightarrow> comparison_failed ''not_deep_equal'' ''notDeepStrictEqual'' actual expected message
      | Inr False \<Rightarrow> Inr ())"

text \<open>\<open>enforce\<close> (lines 202-210) and \<open>range_\<close> (lines 212-215).\<close>

definition enforce :: "pyval \<Rightarrow> string option \<Rightarrow> string option \<Rightarrow> exc + unit" where
  "enforce v name type_name =
     (if \<not> truthy v then
        Inl (Exc TypeError
              (case name of
                 None \<Rightarrow> ''Invalid type for parameter.''
               | Some n \<Rightarrow>
                   (case type_name of
                      None \<Rightarrow> [CHR 0x22] @ n @ [CHR 0x22] @ '' is invalid.''
                    | Some t \<Rightarrow> [CHR 0x22] @ n @ [CHR 0x22] @ '' must be a '' @ t @ ''.''))
              [])
      else Inr ())"

definition range_fn :: "pyval \<Rightarrow> string option \<Rightarrow> exc + unit" where
  "range_fn v name =
     (if \<not> truthy v then
        Inl (Exc ValueError
              (case name of
                 None \<Rightarrow> ''Value out of range''
               | Some n \<Rightarrow>
                   (if n \<noteq> [] then [CHR 0x22] @ n @ [CHR 0x22] @ '' is out of range.''
                    else ''Value out of range''))
              [])
      else Inr ())"

text \<open>
  Callables for the examples: one that raises a given error, one that returns, and a
  predicate that raises a given error on every argument.
\<close>

definition raising :: "exc \<Rightarrow> unit \<Rightarrow> exc + pyval" where
  "raising e u = Inl e"

definition returning :: "pyval \<Rightarrow> unit \<Rightarrow> exc + pyval" where
  "returning v u = Inr v"

definition raising_on :: "exc \<Rightarrow> exc \<Rightarrow> exc + pyval" where
  "raising_on e err = Inl e"

text \<open>
  The expectation kinds of the error matcher that \<open>throws\<close> hands to it: a class, a
  predicate, a property map.
\<close>

fun is_expectation :: "dyn \<Rightarrow> bool" where
  "is_expectation (DType c) = True"
| "is_expectation (DFunc n f) = True"
| "is_expectation (DVal (PDict i kvs)) = True"
| "is_expectation _ = False"

text \<open>
  Two predicates for stating what the comparison of two dicts computes: every value of
  the first dict compares with the value at the same key without an exception, and every
  value of the first dict is deep-equal to the value at the same key.
\<close>

definition values_comparable :: "(pykey \<times> pyval) list \<Rightarrow> (pykey \<times> pyval) list \<Rightarrow> bool" where
  "values_comparable kvs kvs' =
     list_all (\<lambda>(k, v). case map_of kvs' k of
                           None \<Rightarrow> True
                         | Some w \<Rightarrow> is_deep_equal v w = Inr True \<or> is_deep_equal v w = Inr False) kvs"

definition values_deep_equal :: "(pykey \<times> pyval) list \<Rightarrow> (pykey \<times> pyval) list \<Rightarrow> bool" where
  "values_deep_equal kvs kvs' =
     list_all (\<lambda>(k, v). case map_of kvs' k of
                           None \<Rightarrow> False
                         | Some w \<Rightarrow> is_deep_equal v w = Inr True) kvs"

declare is_deep_equal.simps(1) [simp del]
declare py_eq.simps(1) [simp del]

section \<open>Properties of the helper functions\<close>

lemma object_is_refl: "object_is x x = Inr True"
  by (simp add: object_is_def py_is_def)

lemma object_is_nan: "object_is (PFloat i FNaN) (PFloat j FNaN) = Inr True"
  by (simp add: object_is_def)

text \<open>
  Whenever the signed-zero test reaches its divisions, the first one raises: a value
  that equals zero is a zero divisor.
\<close>

lemma py_eq_zero_one_over: "py_eq a (PInt 0) \<Longrightarrow> \<exists>e. one_over a = Inl e"
proof (cases a)
  case (PFloat i f)
  assume "py_eq a (PInt 0)"
  with PFloat show ?thesis
    by (cases f) (auto simp: py_eq.simps(1) num_eq_def fzero_def)
qed (auto simp: py_eq.simps(1) num_eq_def py_is_def split: if_splits)

lemma signed_zero_differs_not_True: "signed_zero_differs a b \<noteq> Inr True"
proof (cases "py_eq a (PInt 0)")
  case True
  then obtain e where "one_over a = Inl e" using py_eq_zero_one_over by blast
  then show ?thesis by (simp add: signed_zero_differs_def)
next
  case False
  then show ?thesis by (simp add: signed_zero_differs_def)
qed

lemma object_is_False_iff:
  "object_is a b = Inr False \<Longrightarrow> \<not> py_is a b \<and> \<not> py_eq a b"
  using signed_zero_differs_not_True [of a b]
  by (auto simp: object_is_def split: if_splits sum.splits bool.splits)

lemma object_is_of_eq:
  "py_is a b \<or> py_eq a b \<Longrightarrow> object_is a b \<noteq> Inr False"
  using object_is_False_iff by blast

lemma is_deep_equal_of_eq:
  "py_is a b \<or> py_eq a b \<Longrightarrow> is_deep_equal a b \<noteq> Inr False"
  using object_is_of_eq [of a b]
  by (cases "object_is a b") (auto simp: is_deep_equal.simps(1) split: bool.splits)

lemma object_is_dict:
  "object_is (PDict i kvs) (PDict j kvs') =
     Inr (py_is (PDict i kvs) (PDict j kvs') \<or> py_eq (PDict i kvs) (PDict j kvs'))"
  by (simp add: object_is_def signed_zero_differs_def py_eq.simps(1))

lemma py_eq_items_keys:
  "py_eq_items kvs bs \<Longrightarrow> set (map fst kvs) \<subseteq> set (map fst bs)"
proof (induction kvs)
  case Nil
  then show ?case by simp
next
  case (Cons kv kvs)
  obtain k v where kv: "kv = (k, v)" by (cases kv)
  from Cons.prems kv obtain w where w: "map_of bs k = Some w" and rest: "py_eq_items kvs bs"
    by (auto split: option.splits)
  from w have "k \<in> set (map fst bs)" by (metis map_of_eq_None_iff option.distinct(1) set_map)
  with Cons.IH rest kv show ?case by simp
qed

lemma py_eq_dict_keys:
  assumes "py_eq (PDict i kvs) (PDict j kvs')"
  shows "set (map fst kvs) = set (map fst kvs')"
proof -
  from assms have c: "card (set (map fst kvs)) = card (set (map fst kvs'))"
    and it: "py_eq_items kvs kvs'"
    by (simp_all add: py_eq.simps(1))
  from it have "set (map fst kvs) \<subseteq> set (map fst kvs')" by (rule py_eq_items_keys)
  with c show ?thesis by (simp add: card_subset_eq)
qed

lemma py_eq_items_values:
  "py_eq_items kvs bs \<Longrightarrow> (k, v) \<in> set kvs \<Longrightarrow>
     \<exists>w. map_of bs k = Some w \<and> (py_is v w \<or> py_eq v w)"
proof (induction kvs)
  case Nil
  then show ?case by simp
next
  case (Cons kv kvs)
  obtain k' v' where kv: "kv = (k', v')" by (cases kv)
  from Cons.prems(1) kv obtain w' where w: "map_of bs k' = Some w'"
    and hd: "py_is v' w' \<or> py_eq v' w'" and rest: "py_eq_items kvs bs"
    by (auto split: option.splits)
  show ?case
  proof (cases "(k, v) = kv")
    case True
    with kv w hd show ?thesis by auto
  next
    case False
    with Cons.prems(2) have "(k, v) \<in> set kvs" by simp
    with Cons.IH rest show ?thesis by blast
  qed
qed

lemma is_deep_equal_dict_mismatch:
  assumes "set (map fst kvs) \<noteq> set (map fst kvs')"
  shows "is_deep_equal (PDict i kvs) (PDict j kvs') = Inr False"
proof -
  from assms have "kvs \<noteq> kvs'" by auto
  then have "\<not> py_is (PDict i kvs) (PDict j kvs')" by (simp add: py_is_def)
  moreover from assms have "\<not> py_eq (PDict i kvs) (PDict j kvs')"
    using py_eq_dict_keys by blast
  ultimately have "object_is (PDict i kvs) (PDict j kvs') = Inr False"
    by (simp add: object_is_dict)
  with assms show ?thesis by (simp add: is_deep_equal.simps(1))
qed

lemma all_deep_equal_items_char:
  assumes "\<forall>(k, v) \<in> set kvs. \<exists>w r. map_of bs k = Some w \<and> is_deep_equal v w = Inr r"
  shows "all_deep_equal_items kvs bs =
           Inr (\<forall>(k, v) \<in> set kvs. \<exists>w. map_of bs k = Some w \<and> is_deep_equal v w = Inr True)"
  using assms
proof (induction kvs)
  case Nil
  then show ?case by simp
next
  case (Cons kv kvs)
  obtain k v where kv: "kv = (k, v)" by (cases kv)
  from Cons.prems kv obtain w r where w: "map_of bs k = Some w" and r: "is_deep_equal v w = Inr r"
    by auto
  from Cons.prems have "\<forall>(k, v) \<in> set kvs. \<exists>w r. map_of bs k = Some w \<and> is_deep_equal v w = Inr r"
    by simp
  from Cons.IH [OF this] kv w r show ?case
    by (cases r) auto
qed

lemma py_eq_items_same:
  assumes "distinct (map fst bs)" "set kvs \<subseteq> set bs"
  shows "py_eq_items kvs bs"
  using assms(2)
proof (induction kvs)
  case Nil
  then show ?case by simp
next
  case (Cons kv kvs)
  obtain k v where kv: "kv = (k, v)" by (cases kv)
  with Cons.prems have "(k, v) \<in> set bs" by simp
  with assms(1) have "map_of bs k = Some v" by simp
  with Cons kv show ?case by (simp add: py_is_def)
qed

lemma is_deep_equal_dict_same_entries:
  assumes "distinct (map fst kvs)" "distinct (map fst kvs')" "set kvs = set kvs'"
  shows "is_deep_equal (PDict i kvs) (PDict j kvs') = Inr True"
proof -
  from assms(3) have "set (map fst kvs) = set (map fst kvs')" by simp
  moreover from assms have "py_eq_items kvs kvs'" by (simp add: py_eq_items_same)
  ultimately have "py_eq (PDict i kvs) (PDict j kvs')" by (simp add: py_eq.simps(1))
  then have "object_is (PDict i kvs) (PDict j kvs') = Inr True" by (simp add: object_is_dict)
  then show ?thesis by (simp add: is_deep_equal.simps(1))
qed

lemma values_deep_equal_iff:
  "values_deep_equal kvs kvs' \<longleftrightarrow>
     (\<forall>(k, v) \<in> set kvs. \<exists>w. map_of kvs' k = Some w \<and> is_deep_equal v w = Inr True)"
  unfolding values_deep_equal_def list_all_iff
  by (rule ball_cong [OF refl]) (simp split: prod.splits option.splits)

lemma values_comparable_iff:
  "values_comparable kvs kvs' \<longleftrightarrow>
     (\<forall>(k, v) \<in> set kvs. \<forall>w. map_of kvs' k = Some w \<longrightarrow>
        is_deep_equal v w = Inr True \<or> is_deep_equal v w = Inr False)"
  unfolding values_comparable_def list_all_iff
  by (rule ball_cong [OF refl]) (simp split: prod.splits option.splits)

lemma is_deep_equal_dict_values:
  assumes d: "distinct (map fst kvs)"
    and k: "set (map fst kvs) = set (map fst kvs')"
    and c: "values_comparable kvs kvs'"
  shows "is_deep_equal (PDict i kvs) (PDict j kvs') = Inr (values_deep_equal kvs kvs')"
proof -
  have look: "\<exists>w. map_of kvs' k = Some w" if "(k, v) \<in> set kvs" for k v
  proof -
    from that have "k \<in> set (map fst kvs')" using k by force
    then show ?thesis by (metis map_of_eq_None_iff not_Some_eq set_map)
  qed
  have comp: "is_deep_equal v w = Inr True \<or> is_deep_equal v w = Inr False"
    if "(k, v) \<in> set kvs" "map_of kvs' k = Some w" for k v w
    using c that unfolding values_comparable_iff by blast
  show ?thesis
  proof (cases "py_is (PDict i kvs) (PDict j kvs') \<or> py_eq (PDict i kvs) (PDict j kvs')")
    case True
    have eq: "\<exists>w. map_of kvs' k = Some w \<and> (py_is v w \<or> py_eq v w)"
      if kv: "(k, v) \<in> set kvs" for k v
    proof (cases "py_is (PDict i kvs) (PDict j kvs')")
      case True
      then have "kvs' = kvs" by (simp add: py_is_def)
      with d kv show ?thesis by (simp add: py_is_def)
    next
      case False
      with \<open>py_is (PDict i kvs) (PDict j kvs') \<or> py_eq (PDict i kvs) (PDict j kvs')\<close>
      have "py_eq_items kvs kvs'" by (simp add: py_eq.simps(1))
      from py_eq_items_values [OF this kv] show ?thesis .
    qed
    have "\<exists>w. map_of kvs' k = Some w \<and> is_deep_equal v w = Inr True"
      if kv: "(k, v) \<in> set kvs" for k v
    proof -
      from eq [OF kv] obtain w where w: "map_of kvs' k = Some w"
        and e: "py_is v w \<or> py_eq v w" by blast
      from e have "is_deep_equal v w \<noteq> Inr False" by (rule is_deep_equal_of_eq)
      with comp [OF kv w] have "is_deep_equal v w = Inr True" by simp
      with w show ?thesis by simp
    qed
    then have "values_deep_equal kvs kvs'"
      unfolding values_deep_equal_iff by blast
    moreover from True have "is_deep_equal (PDict i kvs) (PDict j kvs') = Inr True"
      by (simp add: is_deep_equal.simps(1) object_is_dict)
    ultimately show ?thesis by simp
  next
    case False
    then have o: "object_is (PDict i kvs) (PDict j kvs') = Inr False"
      by (simp add: object_is_dict)
    have "\<exists>w r. map_of kvs' k = Some w \<and> is_deep_equal v w = Inr r"
      if kv: "(k, v) \<in> set kvs" for k v
    proof -
      from look [OF kv] obtain w where w: "map_of kvs' k = Some w" by blast
      from comp [OF kv w] w show ?thesis by blast
    qed
    then have "\<forall>(k, v) \<in> set kvs. \<exists>w r. map_of kvs' k = Some w \<and> is_deep_equal v w = Inr r"
      by blast
    from all_deep_equal_items_char [OF this]
    have "all_deep_equal_items kvs kvs' = Inr (values_deep_equal kvs kvs')"
      unfolding values_deep_equal_iff .
    with o k show ?thesis by (simp add: is_deep_equal.simps(1))
  qed
qed

text \<open>
  The only exception \<open>object_is\<close> and \<open>is_deep_equal\<close> raise is the ZeroDivisionError of
  the signed-zero test; the KeyError of \<open>b[k]\<close> is never reached, since the key sets are
  compared first.
\<close>

lemma object_is_raises:
  assumes "object_is a b = Inl e"
  shows "exc_cls e = ZeroDivisionError"
proof -
  have one: "exc_cls e' = ZeroDivisionError" if "py_eq x (PInt 0)" "one_over x = Inl e'" for x e'
    using that
    by (cases x rule: one_over.cases)
       (auto simp: py_eq.simps(1) num_eq_def py_is_def zero_division_def split: if_splits)
  from assms have s: "signed_zero_differs a b = Inl e"
    by (auto simp: object_is_def split: if_splits sum.splits bool.splits)
  then have za: "py_eq a (PInt 0)" and zb: "py_eq b (PInt 0)"
    by (auto simp: signed_zero_differs_def split: if_splits)
  from s za zb have "one_over a = Inl e \<or> one_over b = Inl e"
    by (auto simp: signed_zero_differs_def split: sum.splits)
  with za zb one show ?thesis by blast
qed

lemma is_deep_equal_raises:
  "is_deep_equal a b = Inl e \<Longrightarrow> exc_cls e = ZeroDivisionError"
  "all_deep_equal xs ys = Inl e \<Longrightarrow> exc_cls e = ZeroDivisionError"
  "set (map fst kvs) \<subseteq> set (map fst bs) \<Longrightarrow> all_deep_equal_items kvs bs = Inl e
     \<Longrightarrow> exc_cls e = ZeroDivisionError"
proof (induction a b and xs ys and kvs bs
       rule: is_deep_equal_all_deep_equal_all_deep_equal_items.induct)
  case (1 a b)
  show ?case
  proof (cases "object_is a b")
    case (Inl e')
    with "1.prems" have "e' = e" by (simp add: is_deep_equal.simps(1))
    with Inl show ?thesis using object_is_raises by blast
  next
    case (Inr r)
    show ?thesis
    proof (cases r)
      case True
      with Inr "1.prems" show ?thesis by (simp add: is_deep_equal.simps(1))
    next
      case False
      with Inr have o: "object_is a b = Inr False" by simp
      show ?thesis
      proof (cases "py_type a = py_type b")
        case ne: False
        with o "1.prems" show ?thesis by (simp add: is_deep_equal.simps(1))
      next
        case ty: True
        show ?thesis
        proof (cases a)
          case (PList i xs)
          with o ty "1.prems" have len: "length xs = py_len b"
            and r: "all_deep_equal xs (seq_items b) = Inl e"
            by (simp_all add: is_deep_equal.simps(1) split: if_splits)
          with "1.IH"(1) o ty PList show ?thesis by auto
        next
          case (PTuple i xs)
          with o ty "1.prems" have len: "length xs = py_len b"
            and r: "all_deep_equal xs (seq_items b) = Inl e"
            by (simp_all add: is_deep_equal.simps(1) split: if_splits)
          with "1.IH"(2) o ty PTuple show ?thesis by auto
        next
          case (PDict i kvs)
          with o ty "1.prems" have k: "set (map fst kvs) = set (map fst (dict_items b))"
            and r: "all_deep_equal_items kvs (dict_items b) = Inl e"
            by (simp_all add: is_deep_equal.simps(1) split: if_splits)
          with "1.IH"(3) o ty PDict show ?thesis by auto
        next
          case (PObj i c d)
          with o ty "1.prems" have "is_deep_equal d (obj_dict b) = Inl e"
            by (simp add: is_deep_equal.simps(1))
          with "1.IH"(4) o ty PObj show ?thesis by auto
        qed (use o ty "1.prems" in \<open>simp_all add: is_deep_equal.simps(1)\<close>)
      qed
    qed
  qed
next
  case (2 ys)
  then show ?case by simp
next
  case (3 x xs)
  then show ?case by simp
next
  case (4 x xs y ys)
  then show ?case by (auto split: sum.splits bool.splits)
next
  case (5 bs)
  then show ?case by simp
next
  case (6 k v kvs bs)
  from "6.prems"(1) have "k \<in> set (map fst bs)" by simp
  then obtain w where w: "map_of bs k = Some w"
    by (metis map_of_eq_None_iff not_Some_eq set_map)
  with 6 show ?case by (auto split: sum.splits bool.splits)
qed

lemma is_deep_equal_total:
  "is_deep_equal a b = Inr True \<or> is_deep_equal a b = Inr False
   \<or> (\<exists>e. is_deep_equal a b = Inl e \<and> exc_cls e = ZeroDivisionError)"
proof (cases "is_deep_equal a b")
  case (Inl e)
  then show ?thesis using is_deep_equal_raises(1) by blast
next
  case (Inr r)
  then show ?thesis by (cases r) simp_all
qed

text \<open>
  The comparison of two dicts: differing key sets give False; with equal key sets, and
  value comparisons that return, the result is whether all values are deep-equal; two
  dicts with the same entries in any order are deep-equal.
\<close>

lemma is_deep_equal_dict:
  "(set (map fst kvs) \<noteq> set (map fst kvs') \<longrightarrow>
      is_deep_equal (PDict i kvs) (PDict j kvs') = Inr False)
   \<and> (distinct (map fst kvs) \<and> set (map fst kvs) = set (map fst kvs')
        \<and> values_comparable kvs kvs' \<longrightarrow>
      is_deep_equal (PDict i kvs) (PDict j kvs') = Inr (values_deep_equal kvs kvs'))
   \<and> (distinct (map fst kvs) \<and> distinct (map fst kvs') \<and> set kvs = set kvs' \<longrightarrow>
      is_deep_equal (PDict i kvs) (PDict j kvs') = Inr True)
   \<and> is_deep_equal (PDict 1 [(KStr ''a'', PInt 1), (KStr ''b'', PInt 2)])
                    (PDict 2 [(KStr ''b'', PInt 2), (KStr ''a'', PInt 1)]) = Inr True"
proof -
  have "is_deep_equal (PDict 1 [(KStr ''a'', PInt 1), (KStr ''b'', PInt 2)])
                      (PDict 2 [(KStr ''b'', PInt 2), (KStr ''a'', PInt 1)]) = Inr True"
    by code_simp
  moreover have "set (map fst kvs) \<noteq> set (map fst kvs') \<longrightarrow>
      is_deep_equal (PDict i kvs) (PDict j kvs') = Inr False"
    by (simp add: is_deep_equal_dict_mismatch)
  moreover have "distinct (map fst kvs) \<and> set (map fst kvs) = set (map fst kvs')
        \<and> values_comparable kvs kvs' \<longrightarrow>
      is_deep_equal (PDict i kvs) (PDict j kvs') = Inr (values_deep_equal kvs kvs')"
    using is_deep_equal_dict_values [of kvs kvs' i j] by blast
  moreover have "distinct (map fst kvs) \<and> distinct (map fst kvs') \<and> set kvs = set kvs' \<longrightarrow>
      is_deep_equal (PDict i kvs) (PDict j kvs') = Inr True"
    using is_deep_equal_dict_same_entries [of kvs kvs' i j] by blast
  ultimately show ?thesis by (intro conjI)
qed

lemma is_deep_equal_dict_example:
  "set (map fst [(KStr ''a'', PInt 1)]) \<noteq> set (map fst [(KStr ''b'', PInt 1)])
   \<and> is_deep_equal (PDict 1 [(KStr ''a'', PInt 1)]) (PDict 2 [(KStr ''b'', PInt 1)]) = Inr False
   \<and> distinct (map fst [(KStr ''a'', PFloat 1 FNaN), (KStr ''b'', PList 3 [PInt 2])])
   \<and> values_comparable [(KStr ''a'', PFloat 1 FNaN), (KStr ''b'', PList 3 [PInt 2])]
                        [(KStr ''b'', PList 4 [PInt 2]), (KStr ''a'', PFloat 2 FNaN)]
   \<and> values_deep_equal [(KStr ''a'', PFloat 1 FNaN), (KStr ''b'', PList 3 [PInt 2])]
                        [(KStr ''b'', PList 4 [PInt 2]), (KStr ''a'', PFloat 2 FNaN)]
   \<and> is_deep_equal (PDict 1 [(KStr ''a'', PFloat 1 FNaN), (KStr ''b'', PList 3 [PInt 2])])
                    (PDict 2 [(KStr ''b'', PList 4 [PInt 2]), (KStr ''a'', PFloat 2 FNaN)])
       = Inr True
   \<and> is_deep_equal (PDict 1 [(KStr ''a'', PInt 1), (KStr ''b'', PList 3 [PInt 2])])
                    (PDict 2 [(KStr ''b'', PList 3 [PInt 2]), (KStr ''a'', PInt 1)])
       = Inr True"
proof -
  have k1: "set (map fst [(KStr ''a'', PInt 1)]) \<noteq> set (map fst [(KStr ''b'', PInt 1)])"
    by simp
  have d2: "distinct (map fst [(KStr ''a'', PFloat 1 FNaN), (KStr ''b'', PList 3 [PInt 2])])"
    by simp
  have k2: "set (map fst [(KStr ''a'', PFloat 1 FNaN), (KStr ''b'', PList 3 [PInt 2])])
            = set (map fst [(KStr ''b'', PList 4 [PInt 2]), (KStr ''a'', PFloat 2 FNaN)])"
    by auto
  have c2: "values_comparable [(KStr ''a'', PFloat 1 FNaN), (KStr ''b'', PList 3 [PInt 2])]
                              [(KStr ''b'', PList 4 [PInt 2]), (KStr ''a'', PFloat 2 FNaN)]"
    by code_simp
  have v2: "values_deep_equal [(KStr ''a'', PFloat 1 FNaN), (KStr ''b'', PList 3 [PInt 2])]
                              [(KStr ''b'', PList 4 [PInt 2]), (KStr ''a'', PFloat 2 FNaN)]"
    by code_simp
  have d3: "distinct (map fst [(KStr ''a'', PInt 1), (KStr ''b'', PList 3 [PInt 2])])
            \<and> distinct (map fst [(KStr ''b'', PList 3 [PInt 2]), (KStr ''a'', PInt 1)])
            \<and> set [(KStr ''a'', PInt 1), (KStr ''b'', PList 3 [PInt 2])]
                = set [(KStr ''b'', PList 3 [PInt 2]), (KStr ''a'', PInt 1)]"
    by auto
  note t1 = is_deep_equal_dict
    [of "[(KStr ''a'', PInt 1)]" "[(KStr ''b'', PInt 1)]" 1 2]
  note t2 = is_deep_equal_dict
    [of "[(KStr ''a'', PFloat 1 FNaN), (KStr ''b'', PList 3 [PInt 2])]"
        "[(KStr ''b'', PList 4 [PInt 2]), (KStr ''a'', PFloat 2 FNaN)]" 1 2]
  note t3 = is_deep_equal_dict
    [of "[(KStr ''a'', PInt 1), (KStr ''b'', PList 3 [PInt 2])]"
        "[(KStr ''b'', PList 3 [PInt 2]), (KStr ''a'', PInt 1)]" 1 2]
  from t1 k1 have r1:
    "is_deep_equal (PDict 1 [(KStr ''a'', PInt 1)]) (PDict 2 [(KStr ''b'', PInt 1)]) = Inr False"
    by blast
  from t2 d2 k2 c2 have
    "is_deep_equal (PDict 1 [(KStr ''a'', PFloat 1 FNaN), (KStr ''b'', PList 3 [PInt 2])])
                   (PDict 2 [(KStr ''b'', PList 4 [PInt 2]), (KStr ''a'', PFloat 2 FNaN)])
       = Inr (values_deep_equal [(KStr ''a'', PFloat 1 FNaN), (KStr ''b'', PList 3 [PInt 2])]
                                [(KStr ''b'', PList 4 [PInt 2]), (KStr ''a'', PFloat 2 FNaN)])"
    by blast
  with v2 have r2:
    "is_deep_equal (PDict 1 [(KStr ''a'', PFloat 1 FNaN), (KStr ''b'', PList 3 [PInt 2])])
                   (PDict 2 [(KStr ''b'', PList 4 [PInt 2]), (KStr ''a'', PFloat 2 FNaN)])
       = Inr True"
    by simp
  from t3 d3 have r3:
    "is_deep_equal (PDict 1 [(KStr ''a'', PInt 1), (KStr ''b'', PList 3 [PInt 2])])
                   (PDict 2 [(KStr ''b'', PList 3 [PInt 2]), (KStr ''a'', PInt 1)])
       = Inr True"
    by blast
  from k1 r1 d2 c2 v2 r2 r3 show ?thesis by (intro conjI)
qed

section \<open>Properties of the throwing assertions\<close>

text \<open>
  On an expectation that is a class, a predicate or a property map, \<open>throws\<close> re-raises
  the original error when the matcher rejects it. A string in the expectation position
  is the message: \<open>throws\<close> returns normally although the matcher rejects the error.
\<close>

lemma throws_reraises_original:
  assumes "func () = Inl err"
    and "is_expectation x"
    and "test_error err x message ''throws'' = Inr False"
  shows "throws func x message = Inl err"
proof (cases x)
  case (DVal v)
  with assms(2) obtain i kvs where v: "v = PDict i kvs" by (cases v) simp_all
  with assms(3) DVal have "kvs \<noteq> []" by auto
  with assms DVal v show ?thesis by (simp add: throws_def swap_message_def)
qed (use assms in \<open>simp_all add: throws_def swap_message_def\<close>)

lemma throws_string_is_message:
  "test_error (Exc TypeError ''x'' []) (DVal (PStr ''boom'')) (DVal PNone) ''throws'' = Inr False
   \<and> throws (raising (Exc TypeError ''x'' [])) (DVal (PStr ''boom'')) (DVal PNone) = Inr ()"
  by (simp add: throws_def swap_message_def raising_def isinstance_def issubclass_def)

section \<open>Properties of the error class and the raise sites\<close>

text \<open>Every raise site raises the TypeError of the built-in constructor.\<close>

lemma raise_site: "raise_AssertionError kw = Inl keyword_type_error"
  by (simp add: raise_AssertionError_def builtin_AssertionError_def)

lemma fail_cases:
  "fail message = Inl keyword_type_error
   \<or> (\<exists>e. message = DExc e \<and> isinstance e Exception \<and> fail message = Inl e)"
  by (cases message) (simp_all add: fail_def raise_site)

text \<open>
  What the constructor of the module's class sets: \<open>generated_message\<close> is true when no
  message was passed, else the flag the caller passed (false by default); the code is
  a constant.
\<close>

lemma AssertError_init_generated:
  "ae_generated_message (AssertError_init py_repr kw) =
     (is_none (kw_message kw) \<or> kw_generated_message kw = Some True)"
  by (cases "kw_generated_message kw") (simp_all add: AssertError_init_def Let_def)

lemma AssertError_init_code: "ae_code (AssertError_init py_repr kw) = ''ERR_ASSERTION''"
  by (simp add: AssertError_init_def Let_def)

section \<open>The claims\<close>

text \<open>
  Claim C1: every assertion function, when it fails, raises an error object that exposes
  message, actual, expected, operator, generatedMessage and a fixed error code, and that
  is distinguishable from ordinary errors.

  The code does otherwise. On a failing input each of the nine functions reaches its
  raise site, and the raise site raises the TypeError of the built-in constructor: an
  ordinary error with none of the attributes.
\<close>

theorem assertion_failures_raise_TypeError:
  "assert_fn (PBool False) (DVal PNone) = Inl keyword_type_error
   \<and> equal_fn (PInt 1) (PStr ''1'') (DVal PNone) = Inl keyword_type_error
   \<and> not_equal (PInt 1) (PInt 1) (DVal PNone) = Inl keyword_type_error
   \<and> fail (DVal PNone) = Inl keyword_type_error
   \<and> throws (returning PNone) (DType ValueError) (DVal PNone) = Inl keyword_type_error
   \<and> does_not_throw (raising (Exc ValueError ''x'' [])) (DType ValueError) (DVal PNone)
       = Inl keyword_type_error
   \<and> if_error py_repr (DExc (Exc ValueError ''x'' [])) = Inl keyword_type_error
   \<and> deep_equal (PList 1 [PInt 1]) (PList 2 [PInt 2]) (DVal PNone) = Inl keyword_type_error
   \<and> not_deep_equal (PList 1 [PInt 1]) (PList 2 [PInt 1]) (DVal PNone) = Inl keyword_type_error
   \<and> exc_cls keyword_type_error = TypeError
   \<and> map_of (exc_attrs keyword_type_error) ''operator'' = None"
proof -
  have o1: "object_is (PInt 1) (PStr ''1'') = Inr False" by code_simp
  have d1: "is_deep_equal (PList 1 [PInt 1]) (PList 2 [PInt 2]) = Inr False" by code_simp
  have d2: "is_deep_equal (PList 1 [PInt 1]) (PList 2 [PInt 1]) = Inr True" by code_simp
  have "assert_fn (PBool False) (DVal PNone) = Inl keyword_type_error"
    by (simp add: assert_fn_def raise_site)
  moreover have "equal_fn (PInt 1) (PStr ''1'') (DVal PNone) = Inl keyword_type_error"
    using o1 by (simp add: equal_fn_def comparison_failed_def raise_site)
  moreover have "not_equal (PInt 1) (PInt 1) (DVal PNone) = Inl keyword_type_error"
    by (simp add: not_equal_def object_is_refl comparison_failed_def raise_site)
  moreover have "fail (DVal PNone) = Inl keyword_type_error"
    by (simp add: fail_def raise_site)
  moreover have "throws (returning PNone) (DType ValueError) (DVal PNone) = Inl keyword_type_error"
    by (simp add: throws_def swap_message_def returning_def raise_site)
  moreover have "does_not_throw (raising (Exc ValueError ''x'' [])) (DType ValueError) (DVal PNone)
       = Inl keyword_type_error"
    by (simp add: does_not_throw_def swap_message_def raising_def isinstance_def issubclass_def
                  raise_site)
  moreover have "if_error py_repr (DExc (Exc ValueError ''x'' [])) = Inl keyword_type_error"
    by (simp add: if_error_def raise_site)
  moreover have "deep_equal (PList 1 [PInt 1]) (PList 2 [PInt 2]) (DVal PNone) = Inl keyword_type_error"
    using d1 by (simp add: deep_equal_def comparison_failed_def raise_site)
  moreover have "not_deep_equal (PList 1 [PInt 1]) (PList 2 [PInt 1]) (DVal PNone) = Inl keyword_type_error"
    using d2 by (simp add: not_deep_equal_def comparison_failed_def raise_site)
  moreover have "exc_cls keyword_type_error = TypeError"
    by (simp add: keyword_type_error_def)
  moreover have "map_of (exc_attrs keyword_type_error) ''operator'' = None"
    by (simp add: keyword_type_error_def)
  ultimately show ?thesis by (intro conjI)
qed

text \<open>
  Claim C2: when the callable raises and no expectation is supplied, \<open>does_not_throw\<close>
  fails with an AssertionError tagged doesNotThrow.

  The code does otherwise: \<open>test_error\<close> answers False on the expectation None, and the
  original error propagates, whatever the message.
\<close>

theorem does_not_throw_without_expectation_propagates:
  "does_not_throw (raising e) (DVal PNone) message = Inl e"
  by (simp add: does_not_throw_def swap_message_def raising_def)

text \<open>
  Claim C3: a regular expression supplied to \<open>throws\<close> is matched against the raised
  error; on a mismatch the original error is re-raised.

  The code does otherwise: the pattern is moved to the message, no expectation is left,
  and \<open>throws\<close> returns normally although the matcher rejects the error.
\<close>

theorem throws_ignores_pattern:
  "test_error e (DPattern search) message ''throws'' = Inr (search (exc_str e))
   \<and> throws (raising e) (DPattern search) message
       = (if isinstance e Exception then Inr () else Inl e)
   \<and> throws (raising (Exc ValueError ''x'' [])) (DPattern (\<lambda>s. False)) (DVal PNone) = Inr ()
   \<and> throws (raising (Exc ValueError ''x'' [])) (DPattern (\<lambda>s. False)) (DVal PNone)
       \<noteq> Inl (Exc ValueError ''x'' [])"
  by (simp add: throws_def swap_message_def raising_def isinstance_def issubclass_def)

text \<open>
  Claim C4: \<open>object_is\<close> returns a boolean and never raises, for every pair of values.

  The code does otherwise on two zeros that are not the same object: the division
  \<open>1/a\<close> of the signed-zero test raises ZeroDivisionError.
\<close>

theorem object_is_raises_on_zeros:
  "object_is (PInt 0) (PFloat 1 (FVal 0)) = Inl (zero_division ''division by zero'')"
  by code_simp

text \<open>
  Claim C5: \<open>object_is(x, x)\<close> is true for every primitive, \<open>object_is(NaN, NaN)\<close> is
  true, and \<open>object_is(+0.0, -0.0)\<close> is false.

  The first two hold. On positive and negative zero the code raises ZeroDivisionError
  instead of returning False.
\<close>

theorem object_is_signed_zeros:
  "object_is x x = Inr True
   \<and> object_is (PFloat i FNaN) (PFloat j FNaN) = Inr True
   \<and> object_is (PFloat 1 (FVal 0)) (PFloat 2 FNegZero)
       = Inl (zero_division ''float division by zero'')"
proof -
  have "object_is (PFloat 1 (FVal 0)) (PFloat 2 FNegZero)
       = Inl (zero_division ''float division by zero'')"
    by code_simp
  then show ?thesis by (simp add: object_is_refl object_is_nan)
qed

text \<open>
  Claim C6: when the callable raises an error that fails to match the supplied
  expectation, \<open>throws\<close> re-raises the original error itself.

  The code does otherwise on a pattern: the matcher rejects the error, and \<open>throws\<close>
  returns normally instead of re-raising it (the defect of claim C3). On a class, a
  predicate and a property map the original error is re-raised
  (\<open>throws_reraises_original\<close>).
\<close>

theorem throws_pattern_mismatch_returns:
  "raising (Exc TypeError ''x'' []) () = Inl (Exc TypeError ''x'' [])
   \<and> test_error (Exc TypeError ''x'' []) (DPattern (\<lambda>s. s = ''never'')) (DVal PNone) ''throws''
       = Inr False
   \<and> throws (raising (Exc TypeError ''x'' [])) (DPattern (\<lambda>s. s = ''never'')) (DVal PNone)
       = Inr ()"
  by (simp add: throws_def swap_message_def raising_def isinstance_def issubclass_def)

text \<open>
  Claim C7: deep equality of two dicts requires equal key sets, irrespective of order,
  and then compares the values at each key recursively; \<open>{a:1, b:2}\<close> and
  \<open>{b:2, a:1}\<close> are deep-equal, and a key-set mismatch at any recursion level yields
  False.

  The code does otherwise below a zero: in \<open>{z: 0.0, d: {x: 1}}\<close> against
  \<open>{z: -0.0, d: {y: 1}}\<close> the inner dicts have different key sets, but the values at
  \<open>z\<close> are compared first and the signed-zero test raises ZeroDivisionError. The key
  order is irrelevant and a mismatch of the two dicts compared yields False
  (\<open>is_deep_equal_dict\<close>).
\<close>

theorem is_deep_equal_nested_mismatch_raises:
  "set (map fst [(KStr ''x'', PInt 1)]) \<noteq> set (map fst [(KStr ''y'', PInt 1)])
   \<and> is_deep_equal
        (PDict 1 [(KStr ''z'', PFloat 3 (FVal 0)), (KStr ''d'', PDict 4 [(KStr ''x'', PInt 1)])])
        (PDict 2 [(KStr ''z'', PFloat 5 FNegZero), (KStr ''d'', PDict 6 [(KStr ''y'', PInt 1)])])
       = Inl (zero_division ''float division by zero'')"
proof -
  have "is_deep_equal
        (PDict 1 [(KStr ''z'', PFloat 3 (FVal 0)), (KStr ''d'', PDict 4 [(KStr ''x'', PInt 1)])])
        (PDict 2 [(KStr ''z'', PFloat 5 FNegZero), (KStr ''d'', PDict 6 [(KStr ''y'', PInt 1)])])
       = Inl (zero_division ''float division by zero'')"
    by code_simp
  then show ?thesis by simp
qed

text \<open>
  Claim C8: when the predicate supplied as expectation raises on the error, \<open>test_error\<close>
  returns False and does not propagate the predicate's exception.

  As amended: this holds when the predicate raises an exception that derives from
  \<open>Exception\<close>. The handler at line 303 is \<open>except Exception\<close>, so a KeyboardInterrupt
  raised by the predicate leaves \<open>test_error\<close>.
\<close>

theorem test_error_swallows_predicate_exception:
  assumes "f err = Inl e"
    and "isinstance e Exception"
  shows "test_error err (DFunc n f) message fn = Inr False"
  using assms by simp

theorem test_error_swallows_predicate_exception_witness:
  "raising_on (Exc KeyError ''k'' []) (Exc ValueError ''x'' []) = Inl (Exc KeyError ''k'' [])
   \<and> isinstance (Exc KeyError ''k'' []) Exception
   \<and> test_error (Exc ValueError ''x'' []) (DFunc ''check'' (raising_on (Exc KeyError ''k'' [])))
        (DVal PNone) ''throws'' = Inr False"
proof -
  have h1: "raising_on (Exc KeyError ''k'' []) (Exc ValueError ''x'' []) = Inl (Exc KeyError ''k'' [])"
    by (simp add: raising_on_def)
  have h2: "isinstance (Exc KeyError ''k'' []) Exception"
    by (simp add: isinstance_def issubclass_def)
  from test_error_swallows_predicate_exception
         [of "raising_on (Exc KeyError ''k'' [])" "Exc ValueError ''x'' []"
             "Exc KeyError ''k'' []" "''check''" "DVal PNone" "''throws''", OF h1 h2]
       h1 h2
  show ?thesis by simp
qed

theorem test_error_propagates_KeyboardInterrupt:
  "raising_on (Exc KeyboardInterrupt [] []) (Exc ValueError ''x'' [])
     = Inl (Exc KeyboardInterrupt [] [])
   \<and> test_error (Exc ValueError ''x'' []) (DFunc ''check'' (raising_on (Exc KeyboardInterrupt [] [])))
        (DVal PNone) ''throws'' = Inl (Exc KeyboardInterrupt [] [])
   \<and> test_error (Exc ValueError ''x'' []) (DFunc ''check'' (raising_on (Exc KeyboardInterrupt [] [])))
        (DVal PNone) ''throws'' \<noteq> Inr False"
  by (simp add: raising_on_def isinstance_def issubclass_def)

text \<open>
  Claim C9: the generatedMessage attribute of every raised AssertionError is true exactly
  when the caller supplied no message.

  The code raises no such error: with the message \<open>custom\<close>, \<open>fail\<close> raises the TypeError
  of the built-in constructor, which is neither an AssertError nor an AssertionError and
  has no \<open>generated_message\<close> attribute.
\<close>

theorem fail_custom_message_raises_TypeError:
  "fail (DVal (PStr ''custom'')) = Inl keyword_type_error
   \<and> exc_cls keyword_type_error \<noteq> AssertError
   \<and> exc_cls keyword_type_error \<noteq> AssertionError
   \<and> map_of (exc_attrs keyword_type_error) ''generated_message'' = None"
  by (simp add: fail_def raise_site keyword_type_error_def)

text \<open>
  Claim C10: on acyclic values \<open>is_deep_equal\<close> terminates and returns a boolean.

  The function terminates on every value of the datatype (it is defined by structural
  recursion), but on positive and negative zero it raises ZeroDivisionError instead of
  returning a boolean.
\<close>

theorem is_deep_equal_raises_on_zeros:
  "is_deep_equal (PFloat 1 (FVal 0)) (PFloat 2 FNegZero)
     = Inl (zero_division ''float division by zero'')"
  by code_simp

end
